theory Spec2Isabelle
  imports Complex_Main "HOL-Library.Word"
begin

unbundle bit_operations_syntax

section \<open>Python values and exceptions\<close>

text \<open>
  The client of \<^verbatim>\<open>screenscraper.py\<close> works on the tree that \<^verbatim>\<open>json.loads\<close> returns.
  Python does not check the shape of that tree, so the model keeps it dynamically typed:
  one datatype of JSON values, and every operation of the source that can raise on a value
  of the wrong shape returns the exception as a value.

  Strings are lists of code points below 256 (Latin-1), which covers every literal of
  the source. A dict is the list of its items; a key is looked up with \<open>map_of\<close>.
  A float is only ever tested for truth by the code, so a non-finite float is
  represented by any non-zero real.
\<close>

datatype json =
    JNull
  | JBool bool
  | JInt int
  | JFloat real
  | JStr string
  | JArr "json list"
  | JObj "(string \<times> json) list"

text \<open>
  The exception classes of the source and of the Python library that the code can meet.
  In the vocabulary of the specification: \<open>ValueError\<close> is InvalidPlatform,
  \<open>GameNotFoundError\<close> is NotFound, \<open>APIQuotaExceededError\<close> is QuotaExceeded,
  \<open>APIClosedError\<close> is ServiceClosed, \<open>ScreenScraperError\<close> carries both RemoteError
  (message \<open>API error: ...\<close>) and TransportFailure (message \<open>Request failed: ...\<close>),
  \<open>JSONDecodeError\<close> is MalformedResponse; \<open>FileNotFoundError\<close>,
  \<open>PermissionError\<close>, \<open>IsADirectoryError\<close> and any other \<open>OSError\<close> are
  FileUnreadable.
\<close>

datatype error =
    ValueError string
  | FileNotFoundError string
  | PermissionError
  | IsADirectoryError
  | OSError string
  | JSONDecodeError
  | ScreenScraperError string
  | APIQuotaExceededError string
  | APIClosedError string
  | GameNotFoundError string
  | AttributeError
  | TypeError
  | KeyError
  | IndexError

text \<open>
  \<^verbatim>\<open>isinstance(e, ScreenScraperError)\<close>: the exception classes the library declares
  itself, \<^verbatim>\<open>ScreenScraperError\<close> and its three subclasses. Every other exception
  reaches the caller as the Python library raised it.
\<close>

fun is_ScreenScraperError :: "error \<Rightarrow> bool" where
  "is_ScreenScraperError (ScreenScraperError msg) = True"
| "is_ScreenScraperError (APIQuotaExceededError msg) = True"
| "is_ScreenScraperError (APIClosedError msg) = True"
| "is_ScreenScraperError (GameNotFoundError msg) = True"
| "is_ScreenScraperError e = False"

definition bind :: "error + 'a \<Rightarrow> ('a \<Rightarrow> error + 'b) \<Rightarrow> error + 'b" where
  "bind m f = (case m of Inl e \<Rightarrow> Inl e | Inr x \<Rightarrow> f x)"

text \<open>Truth value of a Python object (\<^verbatim>\<open>if x:\<close>, \<^verbatim>\<open>not x\<close>, \<^verbatim>\<open>x or y\<close>).\<close>

fun truthy :: "json \<Rightarrow> bool" where
  "truthy JNull = False"
| "truthy (JBool b) = b"
| "truthy (JInt i) = (i \<noteq> 0)"
| "truthy (JFloat r) = (r \<noteq> 0)"
| "truthy (JStr s) = (s \<noteq> [])"
| "truthy (JArr xs) = (xs \<noteq> [])"
| "truthy (JObj kvs) = (kvs \<noteq> [])"

text \<open>\<^verbatim>\<open>d.get(key, default)\<close>: only a dict has the method.\<close>

fun py_get :: "json \<Rightarrow> string \<Rightarrow> json \<Rightarrow> error + json" where
  "py_get (JObj kvs) k d = Inr (case map_of kvs k of Some v \<Rightarrow> v | None \<Rightarrow> d)"
| "py_get _ k d = Inl AttributeError"

text \<open>\<^verbatim>\<open>needle in haystack\<close> for strings.\<close>

fun startswith :: "string \<Rightarrow> string \<Rightarrow> bool" where
  "startswith s [] = True"
| "startswith [] (p # ps) = False"
| "startswith (c # cs) (p # ps) = (c = p \<and> startswith cs ps)"

fun is_substring :: "string \<Rightarrow> string \<Rightarrow> bool" where
  "is_substring p [] = (p = [])"
| "is_substring p (c # cs) = (startswith (c # cs) p \<or> is_substring p cs)"

text \<open>
  \<^verbatim>\<open>key in x\<close> with a string key: membership among the keys of a dict, among the
  elements of a list, substring test on a string; anything else is not iterable.
\<close>

fun py_contains :: "string \<Rightarrow> json \<Rightarrow> error + bool" where
  "py_contains k (JObj kvs) = Inr (k \<in> set (map fst kvs))"
| "py_contains k (JArr xs) = Inr (JStr k \<in> set xs)"
| "py_contains k (JStr s) = Inr (is_substring k s)"
| "py_contains k _ = Inl TypeError"

text \<open>\<^verbatim>\<open>x[key]\<close> with a string key.\<close>

fun py_getitem :: "json \<Rightarrow> string \<Rightarrow> error + json" where
  "py_getitem (JObj kvs) k = (case map_of kvs k of Some v \<Rightarrow> Inr v | None \<Rightarrow> Inl KeyError)"
| "py_getitem _ k = Inl TypeError"

text \<open>
  \<^verbatim>\<open>x[0]\<close>: the first element of a list, the first character of a string; the keys of
  a parsed JSON object are strings, so \<open>0\<close> is never one of them.
\<close>

fun py_index0 :: "json \<Rightarrow> error + json" where
  "py_index0 (JArr []) = Inl IndexError"
| "py_index0 (JArr (x # xs)) = Inr x"
| "py_index0 (JStr []) = Inl IndexError"
| "py_index0 (JStr (c # cs)) = Inr (JStr [c])"
| "py_index0 (JObj kvs) = Inl KeyError"
| "py_index0 _ = Inl TypeError"

text \<open>
  \<^verbatim>\<open>for item in x\<close>: the elements of a list, the characters of a string, the keys of a
  dict; anything else is not iterable.
\<close>

fun py_iter :: "json \<Rightarrow> error + json list" where
  "py_iter (JArr xs) = Inr xs"
| "py_iter (JStr s) = Inr (map (\<lambda>c. JStr [c]) s)"
| "py_iter (JObj kvs) = Inr (map (\<lambda>kv. JStr (fst kv)) kvs)"
| "py_iter _ = Inl TypeError"

text \<open>\<^verbatim>\<open>str.lower()\<close> on code points below 256.\<close>

definition char_lower :: "char \<Rightarrow> char" where
  "char_lower c =
     (let n = of_char c :: nat in
      if (65 \<le> n \<and> n \<le> 90) \<or> (192 \<le> n \<and> n \<le> 222 \<and> n \<noteq> 215)
      then char_of (n + 32) else c)"

definition str_lower :: "string \<Rightarrow> string" where
  "str_lower s = map char_lower s"

text \<open>\<^verbatim>\<open>x.lower()\<close> on a value of unknown type: only a string has the method.\<close>

fun py_lower :: "json \<Rightarrow> error + string" where
  "py_lower (JStr s) = Inr (str_lower s)"
| "py_lower _ = Inl AttributeError"

section \<open>The data classes\<close>

text \<open>
  \<^verbatim>\<open>GameMedia\<close> and \<^verbatim>\<open>GameInfo\<close>. The mapper stores what it reads from the tree
  without converting it, so the fields hold JSON values; only \<open>id\<close> goes through
  \<^verbatim>\<open>str()\<close>. The annotations of the data classes say that a well-typed record
  holds strings.
\<close>

record GameMedia =
  media_type :: json
  url :: json
  format :: json
  region :: json
  size_tag :: json

record GameInfo =
  game_id :: string
  name :: json
  description :: json
  publisher :: json
  developer :: json
  players :: json
  rating :: json
  release_date :: json
  genre :: json
  system :: json
  media :: "GameMedia list"
  raw_data :: json

definition get_media_by_type :: "GameInfo \<Rightarrow> string \<Rightarrow> GameMedia list" where
  "get_media_by_type g mt = filter (\<lambda>m. media_type m = JStr mt) (media g)"

text \<open>The inner loop of \<^verbatim>\<open>get_best_media\<close>: the candidates, in order, for one region.\<close>

fun scan_candidates :: "string \<Rightarrow> GameMedia list \<Rightarrow> error + GameMedia option" where
  "scan_candidates r [] = Inr None"
| "scan_candidates r (m # ms) =
     (case py_lower (region m) of
        Inl e \<Rightarrow> Inl e
      | Inr l \<Rightarrow> if l = str_lower r then Inr (Some m) else scan_candidates r ms)"

text \<open>The outer loop: the preferred regions, in order.\<close>

fun scan_regions :: "string list \<Rightarrow> GameMedia list \<Rightarrow> error + GameMedia option" where
  "scan_regions [] cands = Inr None"
| "scan_regions (r # rs) cands =
     (case scan_candidates r cands of
        Inl e \<Rightarrow> Inl e
      | Inr (Some m) \<Rightarrow> Inr (Some m)
      | Inr None \<Rightarrow> scan_regions rs cands)"

definition default_regions :: "string list" where
  "default_regions = [''us'', ''wor'', ''eu'', ''jp'']"

definition get_best_media ::
  "GameInfo \<Rightarrow> string \<Rightarrow> string list option \<Rightarrow> error + GameMedia option" where
  "get_best_media g mt preferred_regions =
     (let prefs = (case preferred_regions of None \<Rightarrow> default_regions | Some p \<Rightarrow> p);
          candidates = get_media_by_type g mt
      in case candidates of
           [] \<Rightarrow> Inr None
         | c # cs \<Rightarrow>
             (case scan_regions prefs candidates of
                Inl e \<Rightarrow> Inl e
              | Inr (Some m) \<Rightarrow> Inr (Some m)
              | Inr None \<Rightarrow> Inr (Some c)))"

text \<open>
  The selection rule in the words of the specification, on records whose regions are
  strings: filter by kind; the first preference that some candidate carries decides, and
  the first candidate carrying it is returned; without such a preference the first
  candidate; without candidates nothing.
\<close>

definition region_matches :: "string \<Rightarrow> GameMedia \<Rightarrow> bool" where
  "region_matches r m = (case region m of JStr s \<Rightarrow> str_lower s = str_lower r | _ \<Rightarrow> False)"

definition best_media_spec :: "GameMedia list \<Rightarrow> string \<Rightarrow> string list \<Rightarrow> GameMedia option" where
  "best_media_spec ms mt prefs =
     (let cands = filter (\<lambda>m. media_type m = JStr mt) ms
      in case cands of
           [] \<Rightarrow> None
         | c # cs \<Rightarrow>
             (case List.find (\<lambda>r. \<exists>m \<in> set cands. region_matches r m) prefs of
                Some r \<Rightarrow> List.find (region_matches r) cands
              | None \<Rightarrow> Some c))"

definition is_str :: "json \<Rightarrow> bool" where
  "is_str v = (case v of JStr s \<Rightarrow> True | _ \<Rightarrow> False)"

section \<open>The response mapper\<close>

text \<open>
  What the code takes from the Python library: the JSON parser, the text \<^verbatim>\<open>str()\<close>
  gives for a value that is not a string, the two digests and the running checksum,
  the text of \<^verbatim>\<open>Path(s)\<close> for a string \<open>s\<close> (pathlib normalises it) and the last
  component of a path. The theorems hold for every such library.
\<close>

record pylib =
  json_loads :: "string \<Rightarrow> json option"
  repr :: "json \<Rightarrow> string"
  md5 :: "8 word list \<Rightarrow> 128 word"
  sha1 :: "8 word list \<Rightarrow> 160 word"
  crc32 :: "8 word list \<Rightarrow> int \<Rightarrow> int"
  path_str :: "string \<Rightarrow> string"
  path_name :: "string \<Rightarrow> string"

definition py_str :: "pylib \<Rightarrow> json \<Rightarrow> string" where
  "py_str L v = (case v of JStr s \<Rightarrow> s | _ \<Rightarrow> repr L v)"

text \<open>
  The loop of \<^verbatim>\<open>_get_localized_text\<close>: the first item whose \<open>langue\<close> is the
  configured language gives its \<open>text\<close> (or the empty string when it has none).
\<close>

fun find_langue :: "string \<Rightarrow> json list \<Rightarrow> error + json option" where
  "find_langue lang [] = Inr None"
| "find_langue lang (item # items) =
     (case py_get item ''langue'' JNull of
        Inl e \<Rightarrow> Inl e
      | Inr l \<Rightarrow>
          if l = JStr lang
          then (case py_get item ''text'' (JStr '''') of
                  Inl e \<Rightarrow> Inl e
                | Inr t \<Rightarrow> Inr (Some t))
          else find_langue lang items)"

definition get_localized_text :: "string \<Rightarrow> json \<Rightarrow> error + json" where
  "get_localized_text lang text_list =
     (if \<not> truthy text_list then Inr (JStr '''')
      else
        bind (py_iter text_list) (\<lambda>items.
        bind (find_langue lang items) (\<lambda>found.
          case found of
            Some t \<Rightarrow> Inr t
          | None \<Rightarrow> bind (py_index0 text_list) (\<lambda>first. py_get first ''text'' (JStr '''')))))"

definition get_text_from_list :: "json \<Rightarrow> error + json" where
  "get_text_from_list item_list =
     (if \<not> truthy item_list then Inr (JStr '''')
      else bind (py_index0 item_list) (\<lambda>first. py_get first ''text'' (JStr '''')))"

fun find_release :: "json list \<Rightarrow> error + json option" where
  "find_release [] = Inr None"
| "find_release (date_item # items) =
     (case py_get date_item ''region'' JNull of
        Inl e \<Rightarrow> Inl e
      | Inr r \<Rightarrow>
          if r = JStr ''wor'' \<or> r = JStr ''us''
          then (case py_get date_item ''text'' (JStr '''') of
                  Inl e \<Rightarrow> Inl e
                | Inr t \<Rightarrow> Inr (Some t))
          else find_release items)"

definition get_release_date :: "json \<Rightarrow> error + json" where
  "get_release_date dates_list =
     (if \<not> truthy dates_list then Inr (JStr '''')
      else
        bind (py_iter dates_list) (\<lambda>items.
        bind (find_release items) (\<lambda>found.
          case found of
            Some t \<Rightarrow> Inr t
          | None \<Rightarrow> bind (py_index0 dates_list) (\<lambda>first. py_get first ''text'' (JStr '''')))))"

text \<open>
  The body of the inner media loop: \<open>None\<close> when the item has no (truthy) URL and
  nothing is appended.
\<close>

definition media_of_item :: "json \<Rightarrow> error + GameMedia option" where
  "media_of_item media_item =
     bind (py_get media_item ''type'' (JStr '''')) (\<lambda>mtype.
     bind (py_get media_item ''url'' (JStr '''')) (\<lambda>media_url.
       if truthy media_url
       then
         bind (py_get media_item ''format'' (JStr '''')) (\<lambda>fmt.
         bind (py_get media_item ''region'' (JStr '''')) (\<lambda>reg.
         bind (py_get media_item ''size'' (JStr '''')) (\<lambda>sz.
           Inr (Some \<lparr>media_type = mtype, url = media_url, format = fmt,
                       region = reg, size_tag = sz\<rparr>))))
       else Inr None))"

fun parse_media_items :: "json list \<Rightarrow> GameMedia list \<Rightarrow> error + GameMedia list" where
  "parse_media_items [] acc = Inr acc"
| "parse_media_items (media_item # items) acc =
     (case media_of_item media_item of
        Inl e \<Rightarrow> Inl e
      | Inr None \<Rightarrow> parse_media_items items acc
      | Inr (Some m) \<Rightarrow> parse_media_items items (acc @ [m]))"

fun parse_media_groups :: "json list \<Rightarrow> GameMedia list \<Rightarrow> error + GameMedia list" where
  "parse_media_groups [] acc = Inr acc"
| "parse_media_groups (media_group # groups) acc =
     (case py_get media_group ''media'' (JArr []) of
        Inl e \<Rightarrow> Inl e
      | Inr ms \<Rightarrow>
          (case py_iter ms of
             Inl e \<Rightarrow> Inl e
           | Inr items \<Rightarrow>
               (case parse_media_items items acc of
                  Inl e \<Rightarrow> Inl e
                | Inr acc' \<Rightarrow> parse_media_groups groups acc')))"

text \<open>The part of \<^verbatim>\<open>_parse_game_data\<close> after the game node has been found.\<close>

definition parse_jeu :: "pylib \<Rightarrow> string \<Rightarrow> json \<Rightarrow> error + GameInfo" where
  "parse_jeu L lang jeu =
     bind (py_get jeu ''id'' (JStr '''')) (\<lambda>v_id.
     bind (bind (py_get jeu ''noms'' (JArr [])) (get_localized_text lang)) (\<lambda>v_name.
     bind (bind (py_get jeu ''synopsis'' (JArr [])) (get_localized_text lang)) (\<lambda>v_description.
     bind (bind (py_get jeu ''editeur'' (JArr [])) get_text_from_list) (\<lambda>v_publisher.
     bind (bind (py_get jeu ''developpeur'' (JArr [])) get_text_from_list) (\<lambda>v_developer.
     bind (bind (py_get jeu ''joueurs'' (JObj [])) (\<lambda>d. py_get d ''text'' (JStr ''''))) (\<lambda>v_players.
     bind (bind (py_get jeu ''note'' (JObj [])) (\<lambda>d. py_get d ''text'' (JStr ''''))) (\<lambda>v_rating.
     bind (bind (py_get jeu ''dates'' (JArr [])) get_release_date) (\<lambda>v_release_date.
     bind (bind (py_get jeu ''genres'' (JArr [])) get_text_from_list) (\<lambda>v_genre.
     bind (bind (py_get jeu ''systeme'' (JObj [])) (\<lambda>d. py_get d ''text'' (JStr ''''))) (\<lambda>v_system.
     bind (py_get jeu ''medias'' (JArr [])) (\<lambda>medias.
     bind (py_iter medias) (\<lambda>groups.
     bind (parse_media_groups groups []) (\<lambda>ms.
       Inr \<lparr>game_id = py_str L v_id, name = v_name, description = v_description,
            publisher = v_publisher, developer = v_developer, players = v_players,
            rating = v_rating, release_date = v_release_date, genre = v_genre,
            system = v_system, media = ms, raw_data = jeu\<rparr>)))))))))))))"

definition parse_game_data :: "pylib \<Rightarrow> string \<Rightarrow> json \<Rightarrow> error + GameInfo" where
  "parse_game_data L lang data =
     bind (py_contains ''response'' data) (\<lambda>has_response.
       if \<not> has_response then Inl (GameNotFoundError ''Game not found in response'')
       else
         bind (py_getitem data ''response'') (\<lambda>response.
         bind (py_contains ''jeu'' response) (\<lambda>has_jeu.
           if \<not> has_jeu then Inl (GameNotFoundError ''No game data in response'')
           else bind (py_getitem response ''jeu'') (parse_jeu L lang))))"

section \<open>Text formatting\<close>

text \<open>\<^verbatim>\<open>s.replace(old, new)\<close>: every occurrence, left to right, without overlap. The
  source calls it with a non-empty pattern only; for the empty pattern (where Python
  inserts \<open>new\<close> between all characters) this function returns \<open>s\<close>.\<close>

function str_replace :: "string \<Rightarrow> string \<Rightarrow> string \<Rightarrow> string" where
  "str_replace old new [] = []"
| "str_replace old new (c # cs) =
     (if old \<noteq> [] \<and> startswith (c # cs) old
      then new @ str_replace old new (drop (length old) (c # cs))
      else c # str_replace old new cs)"
  by pat_completeness auto
termination
  by (relation "measure (\<lambda>(old, new, s). length s)") (auto simp: neq_Nil_conv)

text \<open>The digits of a number in base \<open>b\<close>, most significant first.\<close>

function digits :: "nat \<Rightarrow> nat \<Rightarrow> nat list" where
  "digits b n = (if n < b \<or> b < 2 then [n] else digits b (n div b) @ [n mod b])"
  by pat_completeness auto
termination
  by (relation "measure (\<lambda>(b, n). n)") auto

declare digits.simps [simp del]

definition hex_lower :: string where
  "hex_lower = ''0123456789abcdef''"

definition hex_upper :: string where
  "hex_upper = ''0123456789ABCDEF''"

definition render :: "string \<Rightarrow> nat list \<Rightarrow> string" where
  "render alphabet ds = map (\<lambda>d. alphabet ! d) ds"

definition zero_pad :: "nat \<Rightarrow> string \<Rightarrow> string" where
  "zero_pad width s = replicate (width - length s) (CHR ''0'') @ s"

text \<open>\<^verbatim>\<open>str(n)\<close> for an integer.\<close>

definition str_int :: "int \<Rightarrow> string" where
  "str_int i =
     (if i < 0 then ''-'' @ render ''0123456789'' (digits 10 (nat (- i)))
      else render ''0123456789'' (digits 10 (nat i)))"

text \<open>\<^verbatim>\<open>hexdigest()\<close>: two lower-case hexadecimal digits for each byte of the digest.\<close>

definition hexdigest :: "'a::len word \<Rightarrow> string" where
  "hexdigest w = zero_pad (LENGTH('a) div 4) (render hex_lower (digits 16 (unat w)))"

text \<open>The format \<^verbatim>\<open>08X\<close>: upper-case hexadecimal, padded with zeros after the sign to
  width 8.\<close>

definition format_08X :: "int \<Rightarrow> string" where
  "format_08X i =
     (if i < 0 then ''-'' @ zero_pad 7 (render hex_upper (digits 16 (nat (- i))))
      else zero_pad 8 (render hex_upper (digits 16 (nat i))))"

text \<open>\<^verbatim>\<open>str.upper()\<close> on code points below 256. The three code points whose upper-case
  form lies outside this range (181, 223 and 255) are left as they are; a digest holds
  none of them.\<close>

definition char_upper :: "char \<Rightarrow> char" where
  "char_upper c =
     (let n = of_char c :: nat in
      if (97 \<le> n \<and> n \<le> 122) \<or> (224 \<le> n \<and> n \<le> 254 \<and> n \<noteq> 247)
      then char_of (n - 32) else c)"

definition str_upper :: "string \<Rightarrow> string" where
  "str_upper s = map char_upper s"

section \<open>The client and its world\<close>

text \<open>
  The state of a \<^verbatim>\<open>ScreenScraperClient\<close>: the eight configuration fields that
  \<^verbatim>\<open>__init__\<close> copies from its arguments, the \<open>User-Agent\<close> header of its session, and
  the two counters.
\<close>

record ScreenScraperClient =
  dev_id :: string
  dev_password :: string
  software_name :: string
  user_id :: "string option"
  user_password :: "string option"
  language :: string
  max_requests_per_day :: int
  request_delay :: real
  session_user_agent :: string
  request_count :: int
  last_request_time :: real

definition init :: "string \<Rightarrow> string \<Rightarrow> string \<Rightarrow> string option \<Rightarrow> string option \<Rightarrow> string
    \<Rightarrow> int \<Rightarrow> real \<Rightarrow> ScreenScraperClient" where
  "init dev_id' dev_password' software_name' user_id' user_password' language'
        max_requests_per_day' request_delay' =
     \<lparr>dev_id = dev_id', dev_password = dev_password', software_name = software_name',
      user_id = user_id', user_password = user_password', language = language',
      max_requests_per_day = max_requests_per_day', request_delay = request_delay',
      session_user_agent = software_name' @ ''/1.0'',
      request_count = 0, last_request_time = 0\<rparr>"

text \<open>
  What lies outside the program: the clock, the remote service and the file system,
  with a trace of the effects the program has had on them. The clock is the value
  \<^verbatim>\<open>time.time()\<close> returns; in the model it moves only when the program sleeps.
\<close>

datatype event =
    Sleep real
  | HttpGet string "(string \<times> string) list"
  | FsExists string
  | FsStat string
  | FsOpen string
  | LogError string error

record response =
  status_code :: nat
  http_error :: string
  body :: string

datatype http_outcome = RequestException string | Response response

text \<open>
  What a path names: nothing, a node that exists (with the size \<^verbatim>\<open>stat\<close> reports) but
  whose \<^verbatim>\<open>open\<close> or \<^verbatim>\<open>read\<close> fails with an \<^verbatim>\<open>OSError\<close>, or a file that can be
  read.
\<close>

datatype open_failure = PermissionDenied | IsADirectory | OtherFailure string

fun os_error :: "open_failure \<Rightarrow> error" where
  "os_error PermissionDenied = PermissionError"
| "os_error IsADirectory = IsADirectoryError"
| "os_error (OtherFailure msg) = OSError msg"

datatype fnode = Absent | Unopenable nat open_failure | Regular "8 word list"

record world =
  now :: real
  http :: "string \<Rightarrow> (string \<times> string) list \<Rightarrow> http_outcome"
  fs :: "string \<Rightarrow> fnode"
  trace :: "event list"

definition emit :: "event list \<Rightarrow> world \<Rightarrow> world" where
  "emit es w = w\<lparr>trace := trace w @ es\<rparr>"

definition sleep :: "real \<Rightarrow> world \<Rightarrow> world" where
  "sleep d w = emit [Sleep d] (w\<lparr>now := now w + d\<rparr>)"

definition BASE_URL :: string where
  "BASE_URL = ''https://www.screenscraper.fr/api2''"

definition PLATFORMS :: "(string \<times> int) list" where
  "PLATFORMS =
     [(''nes'', 3), (''snes'', 4), (''n64'', 14), (''gamecube'', 13), (''wii'', 16),
      (''gameboy'', 9), (''gbc'', 10), (''gba'', 12), (''nds'', 15), (''genesis'', 1),
      (''megadrive'', 1), (''mastersystem'', 2), (''saturn'', 22), (''dreamcast'', 23),
      (''psx'', 57), (''ps2'', 58), (''psp'', 61), (''arcade'', 75), (''mame'', 75),
      (''atari2600'', 26), (''atari7800'', 43), (''colecovision'', 48),
      (''intellivision'', 115)]"

definition rate_limit :: "ScreenScraperClient \<Rightarrow> world \<Rightarrow> ScreenScraperClient \<times> world" where
  "rate_limit c w =
     (let current_time = now w;
          time_since_last = current_time - last_request_time c;
          w' = (if time_since_last < request_delay c
                then sleep (request_delay c - time_since_last) w else w)
      in (c\<lparr>last_request_time := now w'\<rparr>, w'))"

text \<open>\<^verbatim>\<open>d[k] = v\<close> and \<^verbatim>\<open>d.update(other)\<close> on the items of a dict.\<close>

fun dict_set :: "('k \<times> 'v) list \<Rightarrow> 'k \<Rightarrow> 'v \<Rightarrow> ('k \<times> 'v) list" where
  "dict_set [] k v = [(k, v)]"
| "dict_set (p # ps) k v = (if fst p = k then (k, v) # ps else p # dict_set ps k v)"

definition dict_update :: "('k \<times> 'v) list \<Rightarrow> ('k \<times> 'v) list \<Rightarrow> ('k \<times> 'v) list" where
  "dict_update d other = foldl (\<lambda>acc kv. dict_set acc (fst kv) (snd kv)) d other"

definition truthy_opt :: "string option \<Rightarrow> bool" where
  "truthy_opt x = (case x of None \<Rightarrow> False | Some s \<Rightarrow> s \<noteq> [])"

definition build_params ::
  "ScreenScraperClient \<Rightarrow> (string \<times> string) list \<Rightarrow> (string \<times> string) list" where
  "build_params c kwargs =
     (let params = [(''devid'', dev_id c), (''devpassword'', dev_password c),
                    (''softname'', software_name c), (''output'', ''json'')];
          params' = (if truthy_opt (user_id c) \<and> truthy_opt (user_password c)
                     then dict_update params
                            [(''ssid'', the (user_id c)), (''sspassword'', the (user_password c))]
                     else params)
      in dict_update params' kwargs)"

text \<open>The check of the \<open>header\<close> of a parsed response for an error of the service.\<close>

definition check_api_error :: "json \<Rightarrow> error + json" where
  "check_api_error data =
     bind (py_get data ''header'' (JObj [])) (\<lambda>header.
     bind (py_contains ''erreur'' header) (\<lambda>has_erreur.
       if has_erreur
       then
         bind (py_getitem header ''erreur'') (\<lambda>error_msg.
           case error_msg of
             JStr s \<Rightarrow>
               if is_substring ''quota'' (str_lower s)
               then Inl (APIQuotaExceededError (''API quota exceeded: '' @ s))
               else if is_substring (''ferm'' @ [char_of (195 :: nat), char_of (169 :: nat)])
                         (str_lower s)
                       \<or> is_substring ''closed'' (str_lower s)
               then Inl (APIClosedError (''API closed: '' @ s))
               else Inl (ScreenScraperError (''API error: '' @ s))
           | _ \<Rightarrow> Inl AttributeError)
       else Inr data))"

text \<open>
  The one textual repair: \<^verbatim>\<open>],\n\t\t}\<close> becomes \<^verbatim>\<open>]\n\t\t}\<close>.
\<close>

definition repair :: "string \<Rightarrow> string" where
  "repair s =
     str_replace (''],'' @ [char_of (10 :: nat), char_of (9 :: nat), char_of (9 :: nat)] @ ''}'')
                 ('']'' @ [char_of (10 :: nat), char_of (9 :: nat), char_of (9 :: nat)] @ ''}'') s"

text \<open>\<^verbatim>\<open>response.json()\<close>, and on failure \<^verbatim>\<open>json.loads\<close> of the repaired text.\<close>

definition parse_body :: "pylib \<Rightarrow> string \<Rightarrow> json option" where
  "parse_body L b =
     (case json_loads L b of
        Some data \<Rightarrow> Some data
      | None \<Rightarrow> json_loads L (repair b))"

definition make_request ::
  "pylib \<Rightarrow> ScreenScraperClient \<Rightarrow> world \<Rightarrow> string \<Rightarrow> (string \<times> string) list
     \<Rightarrow> (error + json) \<times> ScreenScraperClient \<times> world" where
  "make_request L c w endpoint params =
     (case rate_limit c w of (c1, w1) \<Rightarrow>
        (let url = BASE_URL @ ''/'' @ endpoint;
             w2 = emit [HttpGet url params] w1
         in (case http w1 url params of
               RequestException msg \<Rightarrow>
                 (Inl (ScreenScraperError (''Request failed: '' @ msg)), c1, w2)
             | Response r \<Rightarrow>
                 if 400 \<le> status_code r \<and> status_code r < 600
                 then (Inl (ScreenScraperError (''Request failed: '' @ http_error r)), c1, w2)
                 else
                   (case parse_body L (body r) of
                      None \<Rightarrow> (Inl JSONDecodeError, c1, w2)
                    | Some data \<Rightarrow>
                        (check_api_error data,
                         c1\<lparr>request_count := request_count c1 + 1\<rparr>, w2)))))"

section \<open>File fingerprints and the search operations\<close>

definition chunk_size :: nat where
  "chunk_size = 64 * 1024"

text \<open>
  The read loop of \<^verbatim>\<open>calculate_file_hashes\<close>. A hash object is represented by the
  bytes it has been fed (its digest is a function of them); the checksum is the running
  value \<^verbatim>\<open>zlib.crc32(chunk, crc)\<close>.
\<close>

function hash_loop ::
  "pylib \<Rightarrow> 8 word list \<Rightarrow> 8 word list \<times> 8 word list \<times> int \<Rightarrow> 8 word list \<times> 8 word list \<times> int" where
  "hash_loop L remaining (md5_hash, sha1_hash, crc32_hash) =
     (let chunk = take chunk_size remaining
      in if chunk = [] then (md5_hash, sha1_hash, crc32_hash)
         else hash_loop L (drop chunk_size remaining)
                (md5_hash @ chunk, sha1_hash @ chunk, crc32 L chunk crc32_hash))"
  by pat_completeness auto
termination
  by (relation "measure (\<lambda>(L, remaining, acc). length remaining)")
     (auto simp: chunk_size_def)

declare hash_loop.simps [simp del]

text \<open>
  An argument of type \<^verbatim>\<open>Union[str, Path]\<close>, and \<^verbatim>\<open>Path(file_path)\<close> given by its
  text: a string is normalised by pathlib, a path is taken as it is. The file system is
  asked with that text, and messages show it.
\<close>

datatype path_arg = Str string | PathObj string

fun to_path :: "pylib \<Rightarrow> path_arg \<Rightarrow> string" where
  "to_path L (Str s) = path_str L s"
| "to_path L (PathObj p) = p"

definition calculate_file_hashes ::
  "pylib \<Rightarrow> world \<Rightarrow> path_arg \<Rightarrow> (error + string \<times> string \<times> string) \<times> world" where
  "calculate_file_hashes L w arg =
     (let file_path = to_path L arg
      in case fs w file_path of
           Absent \<Rightarrow>
             (Inl (FileNotFoundError (''File not found: '' @ file_path)),
              emit [FsExists file_path] w)
         | Unopenable n failure \<Rightarrow>
             (Inl (os_error failure),
              emit [FsExists file_path, FsStat file_path, FsOpen file_path] w)
         | Regular content \<Rightarrow>
             (case hash_loop L content ([], [], 0) of (md5_hash, sha1_hash, crc32_hash) \<Rightarrow>
                (Inr (str_upper (hexdigest (md5 L md5_hash)),
                      str_upper (hexdigest (sha1 L sha1_hash)),
                      format_08X (crc32_hash AND 0xFFFFFFFF)),
                 emit [FsExists file_path, FsStat file_path, FsOpen file_path] w)))"

text \<open>\<^verbatim>\<open>file_path.stat().st_size\<close>.\<close>

definition stat_size :: "world \<Rightarrow> string \<Rightarrow> (error + nat) \<times> world" where
  "stat_size w file_path =
     (case fs w file_path of
        Absent \<Rightarrow> (Inl (FileNotFoundError file_path), emit [FsStat file_path] w)
      | Unopenable n failure \<Rightarrow> (Inr n, emit [FsStat file_path] w)
      | Regular content \<Rightarrow> (Inr (length content), emit [FsStat file_path] w))"

text \<open>
  The block that ends each of the three search methods: the request, the mapper, and
  the handler that turns \<^verbatim>\<open>GameNotFoundError\<close> into \<^verbatim>\<open>None\<close>.
\<close>

definition catch_not_found :: "error + GameInfo \<Rightarrow> error + GameInfo option" where
  "catch_not_found r =
     (case r of
        Inl (GameNotFoundError msg) \<Rightarrow> Inr None
      | Inl e \<Rightarrow> Inl e
      | Inr g \<Rightarrow> Inr (Some g))"

definition request_and_parse ::
  "pylib \<Rightarrow> ScreenScraperClient \<Rightarrow> world \<Rightarrow> (string \<times> string) list
     \<Rightarrow> (error + GameInfo option) \<times> ScreenScraperClient \<times> world" where
  "request_and_parse L c w params =
     (case make_request L c w ''jeuInfos.php'' params of (r, c', w') \<Rightarrow>
        (catch_not_found (bind r (parse_game_data L (language c'))), c', w'))"

text \<open>\<^verbatim>\<open>list(self.PLATFORMS.keys())\<close> as the message of the exception shows it.\<close>

definition repr_keys :: "string list \<Rightarrow> string" where
  "repr_keys ks =
     ''['' @ concat (map (\<lambda>(i, k). (if i = 0 then [] else '', '')
                                    @ [char_of (39 :: nat)] @ k @ [char_of (39 :: nat)])
                        (zip [0 ..< length ks] ks)) @ '']''"

definition search_by_file ::
  "pylib \<Rightarrow> ScreenScraperClient \<Rightarrow> world \<Rightarrow> path_arg \<Rightarrow> string \<Rightarrow> string option
     \<Rightarrow> (error + GameInfo option) \<times> ScreenScraperClient \<times> world" where
  "search_by_file L c w arg platform rom_name =
     (let file_path = to_path L arg
      in case map_of PLATFORMS platform of
           None \<Rightarrow>
             (Inl (ValueError (''Unsupported platform: '' @ platform @ ''. Supported: ''
                                 @ repr_keys (map fst PLATFORMS))), c, w)
         | Some systemeid \<Rightarrow>
             (case calculate_file_hashes L w (PathObj file_path) of
                (Inl e, w1) \<Rightarrow> (Inr None, c, emit [LogError file_path e] w1)
              | (Inr (md5', sha1', crc), w1) \<Rightarrow>
                  (let rom_name' = (if truthy_opt rom_name then the rom_name
                                    else path_name L file_path)
                   in (case stat_size w1 file_path of
                         (Inl e, w2) \<Rightarrow> (Inl e, c, w2)
                       | (Inr file_size, w2) \<Rightarrow>
                           request_and_parse L c w2
                             (build_params c
                                [(''md5'', md5'), (''sha1'', sha1'), (''crc'', crc),
                                 (''romnom'', rom_name'),
                                 (''romtaille'', str_int (int file_size)),
                                 (''systemeid'', str_int systemeid),
                                 (''romtype'', ''rom'')])))))"

definition search_by_name ::
  "pylib \<Rightarrow> ScreenScraperClient \<Rightarrow> world \<Rightarrow> string \<Rightarrow> string
     \<Rightarrow> (error + GameInfo option) \<times> ScreenScraperClient \<times> world" where
  "search_by_name L c w game_name platform =
     (case map_of PLATFORMS platform of
        None \<Rightarrow> (Inl (ValueError (''Unsupported platform: '' @ platform)), c, w)
      | Some systemeid \<Rightarrow>
          request_and_parse L c w
            (build_params c [(''recherche'', game_name), (''systemeid'', str_int systemeid)]))"

definition search_by_id ::
  "pylib \<Rightarrow> ScreenScraperClient \<Rightarrow> world \<Rightarrow> string
     \<Rightarrow> (error + GameInfo option) \<times> ScreenScraperClient \<times> world" where
  "search_by_id L c w game_id' =
     request_and_parse L c w (build_params c [(''gameid'', game_id')])"

section \<open>Concrete inputs\<close>

text \<open>Records, responses and worlds on which the theorems below are evaluated.\<close>

definition example_media :: "string \<Rightarrow> string \<Rightarrow> string \<Rightarrow> GameMedia" where
  "example_media kind link reg =
     \<lparr>media_type = JStr kind, url = JStr link, format = JStr ''png'',
      region = JStr reg, size_tag = JStr ''''\<rparr>"

definition example_game :: GameInfo where
  "example_game =
     \<lparr>game_id = ''3'', name = JStr ''Zelda'', description = JStr '''', publisher = JStr '''',
      developer = JStr '''', players = JStr '''', rating = JStr '''', release_date = JStr '''',
      genre = JStr '''', system = JStr '''',
      media = [example_media ''ss'' ''http://s/0'' ''us'',
               example_media ''box-2D'' ''http://s/1'' ''jp'',
               example_media ''box-2D'' ''http://s/2'' ''EU''],
      raw_data = JObj []\<rparr>"

section \<open>The specification's view of a response\<close>

text \<open>
  Reading a response tree the way the specification describes it, without failure: a
  missing key gives the default, a value of another shape counts as an empty list. These
  definitions follow the words of the specification; the theorems compare the mapper of
  the source with them.
\<close>

definition field :: "json \<Rightarrow> string \<Rightarrow> json \<Rightarrow> json" where
  "field v k d = (case v of JObj kvs \<Rightarrow> (case map_of kvs k of Some x \<Rightarrow> x | None \<Rightarrow> d) | _ \<Rightarrow> d)"

text \<open>Localized text: the entry of the configured locale, else the first, else empty;
  and the rule that takes the first entry whatever its locale.\<close>

definition entry_text :: "json \<Rightarrow> json" where
  "entry_text i = field i ''text'' (JStr [])"

definition langue_is :: "string \<Rightarrow> json \<Rightarrow> bool" where
  "langue_is lang i = (field i ''langue'' JNull = JStr lang)"

definition select_first :: "json list \<Rightarrow> json" where
  "select_first items = (case items of [] \<Rightarrow> JStr [] | i # rest \<Rightarrow> entry_text i)"

definition select_localized :: "string \<Rightarrow> json list \<Rightarrow> json" where
  "select_localized lang items =
     (case List.find (langue_is lang) items of
        Some i \<Rightarrow> entry_text i
      | None \<Rightarrow> select_first items)"

definition entries :: "json \<Rightarrow> json list" where
  "entries v = (case v of JArr items \<Rightarrow> items | _ \<Rightarrow> [])"

text \<open>Media: the items of all groups in encounter order, without those lacking a URL.\<close>

definition has_url :: "json \<Rightarrow> bool" where
  "has_url i = truthy (field i ''url'' (JStr []))"

definition item_descriptor :: "json \<Rightarrow> GameMedia" where
  "item_descriptor i =
     \<lparr>media_type = field i ''type'' (JStr []), url = field i ''url'' (JStr []),
      format = field i ''format'' (JStr []), region = field i ''region'' (JStr []),
      size_tag = field i ''size'' (JStr [])\<rparr>"

definition iter_list :: "json \<Rightarrow> json list" where
  "iter_list v = (case py_iter v of Inr xs \<Rightarrow> xs | Inl e \<Rightarrow> [])"

definition group_items :: "json \<Rightarrow> json list" where
  "group_items gr = iter_list (field gr ''media'' (JArr []))"

definition media_spec :: "json \<Rightarrow> GameMedia list" where
  "media_spec jeu =
     map item_descriptor
       (filter has_url (concat (map group_items (iter_list (field jeu ''medias'' (JArr []))))))"











text \<open>Counting the effects in a trace, and whether the answer to a request parses.\<close>

fun is_http_get :: "event \<Rightarrow> bool" where
  "is_http_get (HttpGet u ps) = True"
| "is_http_get e = False"

fun is_fs_access :: "event \<Rightarrow> bool" where
  "is_fs_access (FsExists p) = True"
| "is_fs_access (FsStat p) = True"
| "is_fs_access (FsOpen p) = True"
| "is_fs_access e = False"

definition http_gets :: "world \<Rightarrow> nat" where
  "http_gets w = length (filter is_http_get (trace w))"

definition response_parses :: "pylib \<Rightarrow> world \<Rightarrow> string \<Rightarrow> (string \<times> string) list \<Rightarrow> bool" where
  "response_parses L w endpoint params =
     (case http w (BASE_URL @ ''/'' @ endpoint) params of
        RequestException msg \<Rightarrow> False
      | Response r \<Rightarrow>
          \<not> (400 \<le> status_code r \<and> status_code r < 600) \<and> parse_body L (body r) \<noteq> None)"

text \<open>A string of upper-case hexadecimal digits.\<close>

definition upper_hex :: "string \<Rightarrow> bool" where
  "upper_hex s = list_all (\<lambda>c. c \<in> set hex_upper) s"

definition example_texts :: json where
  "example_texts =
     JArr [JObj [(''langue'', JStr ''fr''), (''text'', JStr ''Bonjour'')],
           JObj [(''langue'', JStr ''en''), (''text'', JStr ''Hello'')]]"

definition example_jeu :: json where
  "example_jeu =
     JObj [(''id'', JInt 3),
           (''noms'', example_texts),
           (''editeur'', example_texts),
           (''medias'',
              JArr [JObj [(''media'',
                 JArr [JObj [(''type'', JStr ''box-2D''), (''url'', JStr '''')],
                       JObj [(''type'', JStr ''box-2D''), (''url'', JStr ''http://s/1''),
                             (''region'', JStr ''jp'')],
                       JObj [(''type'', JStr ''ss'')]])]])]"

definition example_data :: json where
  "example_data = JObj [(''header'', JObj []), (''response'', JObj [(''jeu'', example_jeu)])]"

definition example_quota :: json where
  "example_quota = JObj [(''header'', JObj [(''erreur'', JStr ''Quota exceeded'')])]"

definition example_no_game :: json where
  "example_no_game = JObj [(''header'', JObj []), (''response'', JObj [])]"


definition example_lib :: pylib where
  "example_lib =
     \<lparr>json_loads = (\<lambda>s. if s = ''good'' then Some example_data
                         else if s = ''quota'' then Some example_quota
                         else if s = ''nogame'' then Some example_no_game
                         else None),
      repr = (\<lambda>v. case v of JInt i \<Rightarrow> str_int i | _ \<Rightarrow> ''?''),
      md5 = (\<lambda>bs. of_nat (length bs)),
      sha1 = (\<lambda>bs. of_nat (length bs)),
      crc32 = (\<lambda>bs crc. crc - int (length bs)),
      path_str = (\<lambda>s. if startswith s ''./'' then drop 2 s else s),
      path_name = (\<lambda>p. rev (takeWhile (\<lambda>c. c \<noteq> CHR ''/'') (rev p)))\<rparr>"

definition example_client :: ScreenScraperClient where
  "example_client = init ''dev'' ''secret'' ''ScreenScraperPython'' None None ''en'' 10000 1"

definition example_world :: "string \<Rightarrow> world" where
  "example_world answer =
     \<lparr>now = 100,
      http = (\<lambda>u ps. Response \<lparr>status_code = 200, http_error = [], body = answer\<rparr>),
      fs = (\<lambda>p. if p = ''zelda.nes'' then Regular [1, 2, 3]
                 else if p = ''locked.nes'' then Unopenable 3 PermissionDenied
                 else if p = ''roms'' then Unopenable 4096 IsADirectory else Absent),
      trace = []\<rparr>"

section \<open>Basic facts\<close>

lemma bind_Inr_iff: "bind m f = Inr y \<longleftrightarrow> (\<exists>x. m = Inr x \<and> f x = Inr y)"
  by (cases m) (simp_all add: bind_def)

lemma bind_Inr [simp]: "bind (Inr x) f = f x"
  by (simp add: bind_def)

lemma bind_Inl [simp]: "bind (Inl e) f = Inl e"
  by (simp add: bind_def)

lemma py_get_Inr: "py_get v k d = Inr x \<Longrightarrow> \<exists>kvs. v = JObj kvs"
  by (cases v) simp_all

lemma py_get_field: "py_get (JObj kvs) k d = Inr (field (JObj kvs) k d)"
  by (simp add: field_def)



lemma parse_jeu_InrD:
  assumes "parse_jeu L lang jeu = Inr g"
  shows "\<exists>kvs. jeu = JObj kvs \<and> raw_data g = jeu
    \<and> game_id g = py_str L (field jeu ''id'' (JStr ''''))
    \<and> get_localized_text lang (field jeu ''noms'' (JArr [])) = Inr (name g)
    \<and> get_localized_text lang (field jeu ''synopsis'' (JArr [])) = Inr (description g)
    \<and> get_text_from_list (field jeu ''editeur'' (JArr [])) = Inr (publisher g)
    \<and> get_text_from_list (field jeu ''developpeur'' (JArr [])) = Inr (developer g)
    \<and> py_get (field jeu ''joueurs'' (JObj [])) ''text'' (JStr '''') = Inr (players g)
    \<and> py_get (field jeu ''note'' (JObj [])) ''text'' (JStr '''') = Inr (rating g)
    \<and> get_release_date (field jeu ''dates'' (JArr [])) = Inr (release_date g)
    \<and> get_text_from_list (field jeu ''genres'' (JArr [])) = Inr (genre g)
    \<and> py_get (field jeu ''systeme'' (JObj [])) ''text'' (JStr '''') = Inr (system g)
    \<and> (\<exists>groups. py_iter (field jeu ''medias'' (JArr [])) = Inr groups
          \<and> parse_media_groups groups [] = Inr (media g))"
proof -
  from assms obtain kvs where j: "jeu = JObj kvs"
    unfolding parse_jeu_def bind_Inr_iff by (auto dest: py_get_Inr)
  from assms show ?thesis
    unfolding j parse_jeu_def py_get_field bind_Inr bind_Inr_iff
    by auto
qed

lemma parse_game_data_InrD:
  assumes "parse_game_data L lang data = Inr g"
  shows "\<exists>response jeu. py_getitem data ''response'' = Inr response
           \<and> py_getitem response ''jeu'' = Inr jeu \<and> parse_jeu L lang jeu = Inr g"
  using assms
  by (auto simp: parse_game_data_def bind_Inr_iff split: if_splits)

text \<open>The world: what the effects leave unchanged.\<close>

lemma emit_simps [simp]:
  "http (emit es w) = http w" "fs (emit es w) = fs w" "now (emit es w) = now w"
  "trace (emit es w) = trace w @ es"
  by (simp_all add: emit_def)

lemma sleep_simps [simp]:
  "http (sleep d w) = http w" "fs (sleep d w) = fs w" "now (sleep d w) = now w + d"
  "trace (sleep d w) = trace w @ [Sleep d]"
  by (simp_all add: sleep_def)

lemma rate_limit_world [simp]:
  "http (snd (rate_limit c w)) = http w" "fs (snd (rate_limit c w)) = fs w"
  by (simp_all add: rate_limit_def Let_def)

lemma rate_limit_http_gets [simp]: "http_gets (snd (rate_limit c w)) = http_gets w"
  by (simp add: rate_limit_def Let_def http_gets_def)

lemma rate_limit_client:
  "fst (rate_limit c w) = c\<lparr>last_request_time := now (snd (rate_limit c w))\<rparr>"
  by (simp add: rate_limit_def Let_def)

text \<open>The outcome of a request, by cases on what the service answers.\<close>

lemma make_request_eq:
  "make_request L c w endpoint params =
     (let c1 = fst (rate_limit c w);
          w2 = emit [HttpGet (BASE_URL @ ''/'' @ endpoint) params] (snd (rate_limit c w))
      in case http w (BASE_URL @ ''/'' @ endpoint) params of
           RequestException msg \<Rightarrow> (Inl (ScreenScraperError (''Request failed: '' @ msg)), c1, w2)
         | Response r \<Rightarrow>
             if 400 \<le> status_code r \<and> status_code r < 600
             then (Inl (ScreenScraperError (''Request failed: '' @ http_error r)), c1, w2)
             else (case parse_body L (body r) of
                     None \<Rightarrow> (Inl JSONDecodeError, c1, w2)
                   | Some data \<Rightarrow>
                       (check_api_error data, c1\<lparr>request_count := request_count c1 + 1\<rparr>, w2)))"
proof -
  obtain c1 w1 where rl: "rate_limit c w = (c1, w1)" by (cases "rate_limit c w")
  have "http w1 = http w" using rate_limit_world(1) [of c w] by (simp add: rl)
  then show ?thesis by (simp add: make_request_def rl Let_def)
qed

lemma make_request_http_gets: "http_gets (snd (snd (make_request L c w endpoint params))) = http_gets w + 1"
proof -
  have "http_gets (emit [HttpGet u ps] (snd (rate_limit c w))) = http_gets w + 1" for u ps
    using rate_limit_http_gets [of c w] by (simp add: http_gets_def)
  then show ?thesis
    by (simp add: make_request_eq Let_def split: http_outcome.splits option.splits)
qed

section \<open>Best media\<close>

lemma scan_candidates_str:
  "\<forall>m \<in> set ms. is_str (region m) \<Longrightarrow>
   scan_candidates r ms = Inr (List.find (region_matches r) ms)"
proof (induction ms)
  case Nil
  show ?case by simp
next
  case (Cons m ms)
  from Cons.prems obtain s where s: "region m = JStr s"
    by (auto simp: is_str_def split: json.splits)
  from Cons show ?case
    by (simp add: s region_matches_def)
qed

lemma find_region_none:
  "List.find (region_matches r) ms = None \<longleftrightarrow> \<not> (\<exists>m \<in> set ms. region_matches r m)"
  by (auto simp: find_None_iff)

lemma scan_regions_str:
  assumes "\<forall>m \<in> set ms. is_str (region m)"
  shows "scan_regions rs ms =
     Inr (case List.find (\<lambda>r. \<exists>m \<in> set ms. region_matches r m) rs of
            Some r \<Rightarrow> List.find (region_matches r) ms
          | None \<Rightarrow> None)"
proof (induction rs)
  case Nil
  show ?case by simp
next
  case (Cons r rs)
  show ?case
  proof (cases "List.find (region_matches r) ms")
    case None
    then have "\<not> (\<exists>m \<in> set ms. region_matches r m)"
      by (simp add: find_region_none)
    with None Cons show ?thesis
      by (simp add: scan_candidates_str [OF assms])
  next
    case (Some m)
    then have "\<exists>m \<in> set ms. region_matches r m"
      using find_region_none [of r ms] by auto
    with Some show ?thesis
      by (simp add: scan_candidates_str [OF assms])
  qed
qed

text \<open>
  Claim C6. For a record whose candidates of the requested kind carry string regions (as
  the data class declares), \<^verbatim>\<open>get_best_media\<close> returns what the selection rule of the
  specification describes: the candidates are the media of that kind in encounter order;
  the preferences (by default us, wor, eu, jp) are scanned in order and, for each, the
  candidates in order, comparing regions without regard to case; the first match is
  returned; without a match the first candidate; without candidates nothing.
\<close>

theorem get_best_media_spec:
  assumes "\<forall>m \<in> set (get_media_by_type g mt). is_str (region m)"
  shows "get_best_media g mt preferred_regions =
     Inr (best_media_spec (media g) mt
            (case preferred_regions of None \<Rightarrow> [''us'', ''wor'', ''eu'', ''jp''] | Some p \<Rightarrow> p))"
proof -
  define prefs where
    "prefs = (case preferred_regions of None \<Rightarrow> [''us'', ''wor'', ''eu'', ''jp''] | Some p \<Rightarrow> p)"
  define cands where "cands = get_media_by_type g mt"
  define wanted where "wanted = List.find (\<lambda>r. \<exists>m \<in> set cands. region_matches r m) prefs"
  define pick where
    "pick = (case wanted of Some r \<Rightarrow> List.find (region_matches r) cands | None \<Rightarrow> None)"
  have prefs: "(case preferred_regions of None \<Rightarrow> default_regions | Some p \<Rightarrow> p) = prefs"
    by (simp add: prefs_def default_regions_def split: option.splits)
  have sr: "scan_regions prefs cands = Inr pick"
    unfolding cands_def pick_def wanted_def by (rule scan_regions_str [OF assms])
  have code: "get_best_media g mt preferred_regions =
      (case cands of
         [] \<Rightarrow> Inr None
       | c # cs \<Rightarrow>
           (case scan_regions prefs cands of
              Inl e \<Rightarrow> Inl e
            | Inr (Some m) \<Rightarrow> Inr (Some m)
            | Inr None \<Rightarrow> Inr (Some c)))"
    unfolding get_best_media_def prefs cands_def Let_def by (rule refl)
  have spec: "best_media_spec (media g) mt prefs =
      (case cands of
         [] \<Rightarrow> None
       | c # cs \<Rightarrow>
           (case wanted of
              Some r \<Rightarrow> List.find (region_matches r) cands
            | None \<Rightarrow> Some c))"
    unfolding best_media_spec_def cands_def get_media_by_type_def wanted_def Let_def
    by (rule refl)
  have "get_best_media g mt preferred_regions = Inr (best_media_spec (media g) mt prefs)"
  proof (cases wanted)
    case None
    then have "pick = None" by (simp add: pick_def)
    with None show ?thesis
      unfolding code spec sr by (cases cands) simp_all
  next
    case (Some r)
    then have "\<exists>m \<in> set cands. region_matches r m"
      unfolding wanted_def by (auto simp: find_Some_iff)
    then obtain m where m: "List.find (region_matches r) cands = Some m"
      using find_region_none [of r cands] by (cases "List.find (region_matches r) cands") auto
    with Some have "pick = Some m" by (simp add: pick_def)
    with Some m show ?thesis
      unfolding code spec sr by (cases cands) simp_all
  qed
  then show ?thesis by (simp add: prefs_def)
qed

theorem get_best_media_spec_witness:
  "get_best_media example_game ''box-2D'' None
     = Inr (Some (example_media ''box-2D'' ''http://s/2'' ''EU''))"
proof -
  have h: "\<forall>m \<in> set (get_media_by_type example_game ''box-2D''). is_str (region m)"
    by (simp add: get_media_by_type_def example_game_def example_media_def is_str_def)
  have "best_media_spec (media example_game) ''box-2D'' [''us'', ''wor'', ''eu'', ''jp'']
          = Some (example_media ''box-2D'' ''http://s/2'' ''EU'')"
    by code_simp
  with get_best_media_spec [OF h, of None] show ?thesis by simp
qed

section \<open>Localized text\<close>

lemma find_langue_Inr:
  "find_langue lang items = Inr r \<Longrightarrow> r = map_option entry_text (List.find (langue_is lang) items)"
proof (induction items)
  case Nil
  then show ?case by simp
next
  case (Cons i items)
  from Cons.prems obtain kvs where i: "i = JObj kvs"
    by (cases i) (simp_all)
  from Cons show ?case
    by (auto simp: i langue_is_def entry_text_def field_def split: if_splits option.splits)
qed

lemma get_text_from_list_Inr:
  assumes "get_text_from_list v = Inr t"
  shows "t = select_first (entries v)"
proof (cases "truthy v")
  case False
  with assms have "t = JStr []" by (simp add: get_text_from_list_def)
  moreover from False have "entries v = []" by (cases v) (simp_all add: entries_def)
  ultimately show ?thesis by (simp add: select_first_def)
next
  case True
  with assms obtain first where f: "py_index0 v = Inr first" "py_get first ''text'' (JStr []) = Inr t"
    by (auto simp: get_text_from_list_def bind_Inr_iff)
  from f(2) obtain kvs where k: "first = JObj kvs" by (auto dest: py_get_Inr)
  from f(1) k obtain rest where "v = JArr (first # rest)"
    by (cases v rule: py_index0.cases) auto
  with f(2) k show ?thesis
    by (simp add: select_first_def entries_def entry_text_def field_def)
qed

lemma get_localized_text_Inr:
  assumes "get_localized_text lang v = Inr t"
  shows "t = select_localized lang (entries v)"
proof (cases "truthy v")
  case False
  with assms have "t = JStr []" by (simp add: get_localized_text_def)
  moreover from False have "entries v = []" by (cases v) (simp_all add: entries_def)
  ultimately show ?thesis by (simp add: select_localized_def select_first_def)
next
  case True
  with assms obtain items found where
    it: "py_iter v = Inr items" and fl: "find_langue lang items = Inr found"
    and rest: "(case found of Some t' \<Rightarrow> Inr t'
               | None \<Rightarrow> bind (py_index0 v) (\<lambda>first. py_get first ''text'' (JStr []))) = Inr t"
    by (auto simp: get_localized_text_def bind_Inr_iff)
  have arr: "v = JArr items"
  proof (cases v)
    case (JArr xs)
    with it show ?thesis by simp
  next
    case (JStr s)
    with True obtain c cs where "s = c # cs" by (cases s) auto
    with JStr it fl show ?thesis by auto
  next
    case (JObj kvs)
    with True obtain kv rest where "kvs = kv # rest" by (cases kvs) auto
    with JObj it fl show ?thesis by auto
  qed (use it in simp_all)
  note found = find_langue_Inr [OF fl]
  show ?thesis
  proof (cases found)
    case (Some t')
    with found obtain i where "List.find (langue_is lang) items = Some i" "t' = entry_text i"
      by (cases "List.find (langue_is lang) items") auto
    with rest Some show ?thesis
      by (simp add: select_localized_def entries_def arr)
  next
    case None
    with rest have "get_text_from_list v = Inr t"
      using True by (simp add: get_text_from_list_def)
    from get_text_from_list_Inr [OF this] have "t = select_first items"
      by (simp add: entries_def arr)
    moreover from None found have "List.find (langue_is lang) items = None"
      by (cases "List.find (langue_is lang) items") auto
    ultimately show ?thesis
      by (simp add: select_localized_def entries_def arr)
  qed
qed

text \<open>
  Claim C5, as amended. Whenever the mapper produces a record, its name and its
  description are the text of the first entry whose locale is the configured one, else of
  the first entry, else the empty string; its publisher, developer and genre are the text
  of the first entry, whatever its locale, else the empty string. (The source reads these
  three with \<^verbatim>\<open>_get_text_from_list\<close>, which never looks at the locale.)
\<close>

theorem localized_fields:
  assumes "parse_game_data L lang data = Inr g"
  shows "name g = select_localized lang (entries (field (raw_data g) ''noms'' (JArr [])))
       \<and> description g = select_localized lang (entries (field (raw_data g) ''synopsis'' (JArr [])))
       \<and> publisher g = select_first (entries (field (raw_data g) ''editeur'' (JArr [])))
       \<and> developer g = select_first (entries (field (raw_data g) ''developpeur'' (JArr [])))
       \<and> genre g = select_first (entries (field (raw_data g) ''genres'' (JArr [])))"
proof -
  from parse_game_data_InrD [OF assms] obtain jeu where "parse_jeu L lang jeu = Inr g"
    by blast
  from parse_jeu_InrD [OF this] show ?thesis
    by (auto dest!: get_localized_text_Inr get_text_from_list_Inr)
qed

text \<open>The example of the specification: entries (fr, Bonjour), (en, Hello), locale en.\<close>

lemma example_parse:
  "parse_game_data example_lib ''en'' example_data =
     Inr \<lparr>game_id = ''3'', name = JStr ''Hello'', description = JStr [],
          publisher = JStr ''Bonjour'', developer = JStr [], players = JStr [],
          rating = JStr [], release_date = JStr [], genre = JStr [], system = JStr [],
          media = [\<lparr>media_type = JStr ''box-2D'', url = JStr ''http://s/1'',
                    format = JStr [], region = JStr ''jp'', size_tag = JStr []\<rparr>],
          raw_data = example_jeu\<rparr>"
  by code_simp

theorem localized_fields_witness:
  "map_sum id name (parse_game_data example_lib ''en'' example_data) = Inr (JStr ''Hello'')
   \<and> map_sum id publisher (parse_game_data example_lib ''en'' example_data)
       = Inr (JStr ''Bonjour'')"
proof -
  have a: "select_localized ''en'' (entries (field example_jeu ''noms'' (JArr []))) = JStr ''Hello''"
    by code_simp
  have b: "select_first (entries (field example_jeu ''editeur'' (JArr []))) = JStr ''Bonjour''"
    by code_simp
  from localized_fields [OF example_parse] a b show ?thesis
    by (simp add: example_parse)
qed

text \<open>
  The claim as stated fails for the publisher: with the same two entries and locale en
  the mapper gives Bonjour, where the rule of the claim gives Hello.
\<close>

theorem localized_fields_counterexample:
  "map_sum id publisher (parse_game_data example_lib ''en'' example_data) = Inr (JStr ''Bonjour'')
   \<and> select_localized ''en'' (entries (field example_jeu ''editeur'' (JArr []))) = JStr ''Hello''"
  by code_simp

section \<open>Media\<close>

lemma media_of_item_Inr:
  assumes "media_of_item i = Inr r"
  shows "r = (if has_url i then Some (item_descriptor i) else None)"
proof -
  from assms obtain kvs where "i = JObj kvs"
    by (auto simp: media_of_item_def bind_Inr_iff dest: py_get_Inr)
  with assms show ?thesis
    by (auto simp: media_of_item_def has_url_def item_descriptor_def field_def
          split: if_splits)
qed

lemma parse_media_items_Inr:
  "parse_media_items items acc = Inr r \<Longrightarrow>
   r = acc @ map item_descriptor (filter has_url items)"
proof (induction items arbitrary: acc)
  case Nil
  then show ?case by simp
next
  case (Cons i items)
  from Cons.prems obtain x where x: "media_of_item i = Inr x"
    by (cases "media_of_item i") auto
  note mi = media_of_item_Inr [OF x]
  show ?case
  proof (cases "has_url i")
    case True
    with mi x Cons.prems have "parse_media_items items (acc @ [item_descriptor i]) = Inr r"
      by simp
    from Cons.IH [OF this] True show ?thesis by simp
  next
    case False
    with mi x Cons.prems have "parse_media_items items acc = Inr r"
      by simp
    from Cons.IH [OF this] False show ?thesis by simp
  qed
qed

lemma parse_media_groups_Inr:
  "parse_media_groups groups acc = Inr r \<Longrightarrow>
   r = acc @ map item_descriptor (filter has_url (concat (map group_items groups)))"
proof (induction groups arbitrary: acc)
  case Nil
  then show ?case by simp
next
  case (Cons gr groups)
  from Cons.prems obtain ms items acc' where
    a: "py_get gr ''media'' (JArr []) = Inr ms" and b: "py_iter ms = Inr items"
    and c: "parse_media_items items acc = Inr acc'"
    and d: "parse_media_groups groups acc' = Inr r"
    by (auto split: sum.splits)
  from a obtain kvs where "gr = JObj kvs" by (auto dest: py_get_Inr)
  with a b have gi: "group_items gr = items"
    by (auto simp: group_items_def iter_list_def field_def)
  from parse_media_items_Inr [OF c] Cons.IH [OF d] gi show ?case by simp
qed

lemma has_url_descriptor: "has_url i \<Longrightarrow> truthy (url (item_descriptor i))"
  by (simp add: has_url_def item_descriptor_def)

text \<open>
  Claim C7. For every response tree from which the mapper produces a record, no entry of
  the record's media list has an empty (or otherwise false) URL, and the list is exactly
  the descriptors of the items that have a URL, group after group, in encounter order.
\<close>

theorem media_no_empty_url:
  assumes "parse_game_data L lang data = Inr g"
  shows "(\<forall>m \<in> set (media g). truthy (url m) \<and> url m \<noteq> JStr [])
       \<and> media g = media_spec (raw_data g)"
proof -
  from parse_game_data_InrD [OF assms] obtain jeu where "parse_jeu L lang jeu = Inr g"
    by blast
  from parse_jeu_InrD [OF this] obtain groups where
    r: "raw_data g = jeu" and i: "py_iter (field jeu ''medias'' (JArr [])) = Inr groups"
    and p: "parse_media_groups groups [] = Inr (media g)"
    by blast
  from parse_media_groups_Inr [OF p] i r have m: "media g = media_spec (raw_data g)"
    by (simp add: media_spec_def iter_list_def)
  have "truthy (url m)" if "m \<in> set (media g)" for m :: GameMedia
    using that unfolding m media_spec_def by (auto simp: has_url_descriptor)
  moreover have "url m \<noteq> JStr []" if "truthy (url m)" for m :: GameMedia
    using that by auto
  ultimately show ?thesis using m by blast
qed

theorem media_no_empty_url_witness:
  "map_sum id media (parse_game_data example_lib ''en'' example_data)
     = Inr [\<lparr>media_type = JStr ''box-2D'', url = JStr ''http://s/1'',
              format = JStr [], region = JStr ''jp'', size_tag = JStr []\<rparr>]
   \<and> media_spec example_jeu
       = [\<lparr>media_type = JStr ''box-2D'', url = JStr ''http://s/1'',
            format = JStr [], region = JStr ''jp'', size_tag = JStr []\<rparr>]"
  using media_no_empty_url [OF example_parse] by (simp add: example_parse)

section \<open>The mapper finds no game\<close>






































section \<open>Platform validation\<close>

text \<open>
  Claim C1. For a platform name that is not a key of the platform table, both
  \<^verbatim>\<open>search_by_name\<close> and \<^verbatim>\<open>search_by_file\<close> raise \<^verbatim>\<open>ValueError\<close> (InvalidPlatform)
  and leave the client and the world as they were: the trace gains no event, so no
  request was sent and no file was touched.
\<close>

theorem invalid_platform_rejected:
  assumes "platform \<notin> set (map fst PLATFORMS)"
  shows "(\<exists>msg. search_by_name L c w game_name platform = (Inl (ValueError msg), c, w))
       \<and> (\<exists>msg. search_by_file L c w file_path platform rom_name = (Inl (ValueError msg), c, w))"
proof -
  from assms have "map_of PLATFORMS platform = None"
    by (simp add: map_of_eq_None_iff)
  then show ?thesis
    by (simp add: search_by_name_def search_by_file_def Let_def)
qed

theorem invalid_platform_rejected_witness:
  "search_by_name example_lib example_client (example_world ''good'') ''Test'' ''invalid_platform''
     = (Inl (ValueError ''Unsupported platform: invalid_platform''), example_client,
        example_world ''good'')"
proof -
  have "''invalid_platform'' \<notin> set (map fst PLATFORMS)"
    by (simp add: PLATFORMS_def)
  from invalid_platform_rejected [OF this, of example_lib example_client "example_world ''good''" "''Test''"]
  show ?thesis by (auto simp: search_by_name_def PLATFORMS_def)
qed

section \<open>Malformed responses\<close>

text \<open>
  Claim C2, as amended. When the service answers with a success status and the body
  parses neither as it is nor after the one repair, the request fails with the
  \<^verbatim>\<open>json.JSONDecodeError\<close> of the second parse. Nothing catches it: it is not a
  \<^verbatim>\<open>ScreenScraperError\<close> nor any other exception class of the library, and it reaches
  the caller of the search methods as it was raised. There is no further repair and no
  retry: exactly one request has been sent, and the request counter is unchanged.
\<close>

theorem malformed_response:
  assumes "http w (BASE_URL @ ''/'' @ endpoint) params = Response r"
    and "\<not> (400 \<le> status_code r \<and> status_code r < 600)"
    and "json_loads L (body r) = None"
    and "json_loads L (repair (body r)) = None"
  shows "make_request L c w endpoint params =
           (Inl JSONDecodeError, fst (rate_limit c w),
            emit [HttpGet (BASE_URL @ ''/'' @ endpoint) params] (snd (rate_limit c w)))
       \<and> \<not> (\<exists>e. fst (make_request L c w endpoint params) = Inl e \<and> is_ScreenScraperError e)
       \<and> http_gets (snd (snd (make_request L c w endpoint params))) = http_gets w + 1
       \<and> request_count (fst (snd (make_request L c w endpoint params))) = request_count c
       \<and> (endpoint = ''jeuInfos.php'' \<longrightarrow>
            fst (request_and_parse L c w params) = Inl JSONDecodeError)"
proof -
  from assms(3,4) have pb: "parse_body L (body r) = None"
    by (simp add: parse_body_def)
  have mr: "make_request L c w endpoint params =
           (Inl JSONDecodeError, fst (rate_limit c w),
            emit [HttpGet (BASE_URL @ ''/'' @ endpoint) params] (snd (rate_limit c w)))"
    using assms(1,2) pb by (simp add: make_request_eq Let_def)
  have rc: "request_count (fst (rate_limit c w)) = request_count c"
    by (subst rate_limit_client) simp
  have raw: "\<not> (\<exists>e. fst (make_request L c w endpoint params) = Inl e \<and> is_ScreenScraperError e)"
    by (simp add: mr)
  have "fst (request_and_parse L c w params) = Inl JSONDecodeError" if "endpoint = ''jeuInfos.php''"
    using mr that by (simp add: request_and_parse_def catch_not_found_def)
  with mr rc raw make_request_http_gets [of L c w endpoint params] show ?thesis by simp
qed

lemma example_garbage:
  "json_loads example_lib ''garbage'' = None" "repair ''garbage'' = ''garbage''"
  by (simp_all add: example_lib_def repair_def)

theorem malformed_response_witness:
  "fst (make_request example_lib example_client (example_world ''garbage'') ''jeuInfos.php'' [])
     = Inl JSONDecodeError
   \<and> fst (request_and_parse example_lib example_client (example_world ''garbage'') [])
       = Inl JSONDecodeError"
  using malformed_response [of "example_world ''garbage''" "''jeuInfos.php''" "[]"
      "\<lparr>status_code = 200, http_error = [], body = ''garbage''\<rparr>" example_lib example_client]
  by (simp add: example_world_def example_garbage)

text \<open>
  The claim as stated fails: what the caller of a search receives for such a body is the
  Python library's own exception, not one of the library's typed conditions.
\<close>

theorem malformed_response_counterexample:
  "fst (search_by_id example_lib example_client (example_world ''garbage'') ''3'')
     = Inl JSONDecodeError
   \<and> is_ScreenScraperError JSONDecodeError = False"
  by (simp add: search_by_id_def request_and_parse_def catch_not_found_def make_request_eq
        Let_def example_world_def parse_body_def example_garbage)

section \<open>Unreadable files\<close>

lemma calculate_file_hashes_path:
  "calculate_file_hashes L w (PathObj (to_path L arg)) = calculate_file_hashes L w arg"
  by (simp add: calculate_file_hashes_def)

lemma calculate_file_hashes_http_gets:
  "http_gets (snd (calculate_file_hashes L w arg)) = http_gets w"
  by (simp add: calculate_file_hashes_def Let_def http_gets_def split: fnode.splits prod.splits)

lemma calculate_file_hashes_unreadable:
  assumes "\<forall>content. fs w (to_path L arg) \<noteq> Regular content"
  shows "fst (calculate_file_hashes L w arg) =
           Inl (case fs w (to_path L arg) of
                  Absent \<Rightarrow> FileNotFoundError (''File not found: '' @ to_path L arg)
                | Unopenable n failure \<Rightarrow> os_error failure
                | Regular content \<Rightarrow> PermissionError)"
  using assms
  by (cases "fs w (to_path L arg)") (simp_all add: calculate_file_hashes_def Let_def)

text \<open>
  Claim C3, as amended. For a valid platform and a path that names no file that can be
  read, \<^verbatim>\<open>calculate_file_hashes\<close> fails towards its direct caller: with
  \<^verbatim>\<open>FileNotFoundError\<close>, its message showing the path as pathlib normalises it, when
  nothing is there, and otherwise with the \<^verbatim>\<open>OSError\<close> that opening or reading raises
  (\<^verbatim>\<open>PermissionError\<close>, \<^verbatim>\<open>IsADirectoryError\<close>, ...). \<^verbatim>\<open>search_by_file\<close> catches
  whatever was raised, logs it and returns \<^verbatim>\<open>None\<close>: the caller of the search sees the
  empty result, the client is unchanged and no request is sent.
\<close>

theorem unreadable_file_gives_none:
  assumes "platform \<in> set (map fst PLATFORMS)"
    and "\<forall>content. fs w (to_path L arg) \<noteq> Regular content"
  shows "\<exists>e. fst (calculate_file_hashes L w arg) = Inl e
           \<and> e = (case fs w (to_path L arg) of
                    Absent \<Rightarrow> FileNotFoundError (''File not found: '' @ to_path L arg)
                  | Unopenable n failure \<Rightarrow> os_error failure
                  | Regular content \<Rightarrow> PermissionError)
           \<and> search_by_file L c w arg platform rom_name
               = (Inr None, c,
                  emit [LogError (to_path L arg) e] (snd (calculate_file_hashes L w arg)))
           \<and> http_gets (snd (snd (search_by_file L c w arg platform rom_name)))
               = http_gets w"
proof -
  from assms(1) obtain sid where sid: "map_of PLATFORMS platform = Some sid"
    by (cases "map_of PLATFORMS platform") (auto simp: map_of_eq_None_iff)
  obtain r w1 where c: "calculate_file_hashes L w arg = (r, w1)"
    by (cases "calculate_file_hashes L w arg")
  from calculate_file_hashes_unreadable [OF assms(2)] c obtain e where
    r: "r = Inl e"
    and e: "e = (case fs w (to_path L arg) of
                   Absent \<Rightarrow> FileNotFoundError (''File not found: '' @ to_path L arg)
                 | Unopenable n failure \<Rightarrow> os_error failure
                 | Regular content \<Rightarrow> PermissionError)"
    by simp
  have g: "http_gets w1 = http_gets w"
    using calculate_file_hashes_http_gets [of L w arg] by (simp add: c)
  have s: "search_by_file L c w arg platform rom_name
          = (Inr None, c, emit [LogError (to_path L arg) e] w1)"
    by (simp add: search_by_file_def sid calculate_file_hashes_path c r)
  have "http_gets (emit [LogError (to_path L arg) e] w1) = http_gets w"
    using g by (simp add: http_gets_def)
  with s c r e show ?thesis by simp
qed

theorem unreadable_file_gives_none_witness:
  "fst (search_by_file example_lib example_client (example_world ''good'') (Str ''./roms'') ''nes'' None)
     = Inr None
   \<and> fst (calculate_file_hashes example_lib (example_world ''good'') (Str ''./roms''))
       = Inl IsADirectoryError
   \<and> http_gets (snd (snd (search_by_file example_lib example_client (example_world ''good'')
         (Str ''./roms'') ''nes'' None))) = 0"
proof -
  have p: "''nes'' \<in> set (map fst PLATFORMS)"
    by (simp add: PLATFORMS_def)
  have t: "path_str example_lib ''./roms'' = ''roms''"
    by (simp add: example_lib_def)
  have f: "fs (example_world ''good'') ''roms'' = Unopenable 4096 IsADirectory"
    by (simp add: example_world_def)
  have n: "\<forall>content. fs (example_world ''good'') (to_path example_lib (Str ''./roms''))
             \<noteq> Regular content"
    by (simp add: t f)
  have h: "http_gets (example_world ''good'') = 0"
    by (simp add: http_gets_def example_world_def)
  from unreadable_file_gives_none [OF p n, of example_client None] h
  show ?thesis by (auto simp: t f)
qed

text \<open>
  The claim as stated fails: for a path that names nothing the hashing raises
  \<^verbatim>\<open>FileNotFoundError\<close>, and the search returns \<^verbatim>\<open>None\<close>, not a failure.
\<close>

theorem unreadable_file_counterexample:
  "fst (calculate_file_hashes example_lib (example_world ''good'') (Str ''./missing.nes''))
     = Inl (FileNotFoundError ''File not found: missing.nes'')
   \<and> fst (search_by_file example_lib example_client (example_world ''good'')
           (Str ''./missing.nes'') ''nes'' None) = Inr None"
proof -
  have t: "path_str example_lib ''./missing.nes'' = ''missing.nes''"
    by (simp add: example_lib_def)
  have f: "fs (example_world ''good'') ''missing.nes'' = Absent"
    by (simp add: example_world_def)
  show ?thesis
    by (simp add: search_by_file_def calculate_file_hashes_def PLATFORMS_def Let_def t f
          truthy_opt_def)
qed

section \<open>The request counter\<close>

lemma rate_limit_max:
  "rate_limit (c\<lparr>max_requests_per_day := m\<rparr>) w
     = ((fst (rate_limit c w))\<lparr>max_requests_per_day := m\<rparr>, snd (rate_limit c w))"
  by (simp add: rate_limit_def Let_def)

lemma make_request_client:
  "fst (snd (make_request L c w endpoint params))
     = c\<lparr>last_request_time := now (snd (rate_limit c w)),
          request_count := request_count c
             + (if response_parses L w endpoint params then 1 else 0)\<rparr>"
  by (simp add: make_request_eq Let_def response_parses_def rate_limit_client
        split: http_outcome.splits option.splits)

text \<open>
  Claim C10. A request adds one to \<^verbatim>\<open>request_count\<close> exactly when the service answers
  with a success status and a body that parses (as it is or after the repair), whatever
  the check of the parsed answer then raises; a transport failure, an error status or an
  unparseable body leave the counter as it was. Apart from the counter and
  \<^verbatim>\<open>last_request_time\<close> no field of the client changes, and the outcome does not depend
  on \<^verbatim>\<open>max_requests_per_day\<close>: the counter is never compared with it.
\<close>

theorem request_count_effect:
  "request_count (fst (snd (make_request L c w endpoint params)))
     = request_count c + (if response_parses L w endpoint params then 1 else 0)
   \<and> fst (snd (make_request L c w endpoint params))
       = c\<lparr>last_request_time := now (snd (rate_limit c w)),
            request_count := request_count c
               + (if response_parses L w endpoint params then 1 else 0)\<rparr>
   \<and> (http w (BASE_URL @ ''/'' @ endpoint) params = Response r
        \<and> \<not> (400 \<le> status_code r \<and> status_code r < 600)
        \<and> parse_body L (body r) = Some data
      \<longrightarrow> response_parses L w endpoint params
          \<and> fst (make_request L c w endpoint params) = check_api_error data)
   \<and> make_request L (c\<lparr>max_requests_per_day := m\<rparr>) w endpoint params
       = (fst (make_request L c w endpoint params),
          (fst (snd (make_request L c w endpoint params)))\<lparr>max_requests_per_day := m\<rparr>,
          snd (snd (make_request L c w endpoint params)))"
proof -
  have a: "fst (snd (make_request L c w endpoint params))
       = c\<lparr>last_request_time := now (snd (rate_limit c w)),
            request_count := request_count c
               + (if response_parses L w endpoint params then 1 else 0)\<rparr>"
    by (rule make_request_client)
  have b: "request_count (fst (snd (make_request L c w endpoint params)))
     = request_count c + (if response_parses L w endpoint params then 1 else 0)"
    by (subst a) simp
  have c: "response_parses L w endpoint params
          \<and> fst (make_request L c w endpoint params) = check_api_error data"
    if "http w (BASE_URL @ ''/'' @ endpoint) params = Response r"
      "\<not> (400 \<le> status_code r \<and> status_code r < 600)"
      "parse_body L (body r) = Some data"
    using that by (auto simp: make_request_eq Let_def response_parses_def)
  have d: "make_request L (c\<lparr>max_requests_per_day := m\<rparr>) w endpoint params
       = (fst (make_request L c w endpoint params),
          (fst (snd (make_request L c w endpoint params)))\<lparr>max_requests_per_day := m\<rparr>,
          snd (snd (make_request L c w endpoint params)))"
    by (simp add: make_request_eq [of L "c\<lparr>max_requests_per_day := m\<rparr>"] make_request_eq [of L c]
          rate_limit_max Let_def split: http_outcome.splits option.splits)
  from a b c d show ?thesis by blast
qed

theorem request_count_effect_witness:
  "fst (make_request example_lib example_client (example_world ''quota'') ''jeuInfos.php'' [])
     = Inl (APIQuotaExceededError ''API quota exceeded: Quota exceeded'')
   \<and> request_count (fst (snd (make_request example_lib example_client (example_world ''quota'')
         ''jeuInfos.php'' []))) = 1
   \<and> request_count (fst (snd (make_request example_lib example_client (example_world ''garbage'')
         ''jeuInfos.php'' []))) = 0"
proof -
  have q: "parse_body example_lib ''quota'' = Some example_quota"
    by (simp add: parse_body_def example_lib_def)
  have e: "check_api_error example_quota
             = Inl (APIQuotaExceededError ''API quota exceeded: Quota exceeded'')"
    by code_simp
  have g: "\<not> response_parses example_lib (example_world ''garbage'') ''jeuInfos.php'' []"
    by (simp add: response_parses_def example_world_def parse_body_def example_lib_def repair_def)
  have z: "request_count example_client = 0"
    by (simp add: example_client_def init_def)
  from request_count_effect [of example_lib example_client "example_world ''quota''"
      "''jeuInfos.php''" "[]" "\<lparr>status_code = 200, http_error = [], body = ''quota''\<rparr>"
      example_quota]
    request_count_effect [of example_lib example_client "example_world ''garbage''"
      "''jeuInfos.php''" "[]"]
    q e g z
  show ?thesis by (simp add: example_world_def)
qed

section \<open>File fingerprints\<close>

lemma digits_less: "2 \<le> b \<Longrightarrow> d \<in> set (digits b n) \<Longrightarrow> d < b"
proof (induction b n rule: digits.induct)
  case (1 b n)
  show ?case
  proof (cases "n < b")
    case True
    with "1.prems" show ?thesis by (simp add: digits.simps [of b n])
  next
    case False
    with "1.prems" have "d \<in> set (digits b (n div b)) \<or> d = n mod b"
      by (auto simp: digits.simps [of b n])
    with False "1.prems" "1.IH" show ?thesis by auto
  qed
qed

lemma digits_length: "2 \<le> b \<Longrightarrow> n < b ^ k \<Longrightarrow> 0 < k \<Longrightarrow> length (digits b n) \<le> k"
proof (induction b n arbitrary: k rule: digits.induct)
  case (1 b n)
  show ?case
  proof (cases "n < b")
    case True
    with "1.prems" show ?thesis by (simp add: digits.simps [of b n])
  next
    case False
    with "1.prems" obtain j where k: "k = Suc j" and j: "0 < j"
      by (cases k; cases "k - 1") auto
    from "1.prems" k have "n div b < b ^ j"
      by (simp add: less_mult_imp_div_less mult.commute)
    with "1.IH" [of j] False "1.prems" j have "length (digits b (n div b)) \<le> j" by simp
    with False "1.prems" k show ?thesis by (simp add: digits.simps [of b n])
  qed
qed

lemma zero_pad_length: "length s \<le> width \<Longrightarrow> length (zero_pad width s) = width"
  by (simp add: zero_pad_def)

lemma upper_alphabet: "d < 16 \<Longrightarrow> hex_upper ! d \<in> set hex_upper"
  by (rule nth_mem) (simp add: hex_upper_def)

lemma lower_alphabet: "d < 16 \<Longrightarrow> hex_lower ! d \<in> set hex_lower"
  by (rule nth_mem) (simp add: hex_lower_def)

lemma char_upper_hex:
  "c \<in> set hex_lower \<Longrightarrow> char_upper c \<in> set hex_upper"
proof -
  have "list_all (\<lambda>c. char_upper c \<in> set hex_upper) hex_lower"
    by code_simp
  then show "c \<in> set hex_lower \<Longrightarrow> char_upper c \<in> set hex_upper"
    unfolding list_all_iff by blast
qed

lemma zero_lower: "CHR ''0'' \<in> set hex_lower"
  by (simp add: hex_lower_def)

lemma zero_upper: "CHR ''0'' \<in> set hex_upper"
  by (simp add: hex_upper_def)

lemma hexdigest_format:
  fixes w :: "'a::len word"
  assumes "LENGTH('a) = 4 * k" "0 < k"
  shows "length (str_upper (hexdigest w)) = k \<and> upper_hex (str_upper (hexdigest w))"
proof -
  let ?ds = "digits 16 (unat w)"
  have "unat w < 2 ^ LENGTH('a)" by (rule unsigned_less)
  also have "(2::nat) ^ LENGTH('a) = 16 ^ k"
    by (simp add: assms(1) power_mult)
  finally have "length ?ds \<le> k"
    using assms(2) by (intro digits_length) simp_all
  then have len: "length (hexdigest w) = k"
    by (simp add: hexdigest_def assms(1) zero_pad_length render_def)
  have "c \<in> set hex_lower" if "c \<in> set (hexdigest w)" for c
  proof -
    from that have "c = CHR ''0'' \<or> c \<in> set (render hex_lower ?ds)"
      by (auto simp: hexdigest_def zero_pad_def)
    moreover have "c \<in> set hex_lower"
      if "c \<in> set (render hex_lower ?ds)"
    proof -
      from that obtain d where "d \<in> set ?ds" "c = hex_lower ! d"
        by (auto simp: render_def)
      with digits_less [of 16 d "unat w"] lower_alphabet [of d] show ?thesis by simp
    qed
    ultimately show ?thesis using zero_lower by auto
  qed
  then have "upper_hex (str_upper (hexdigest w))"
    unfolding upper_hex_def str_upper_def list_all_iff
    using char_upper_hex by auto
  with len show ?thesis by (simp add: str_upper_def)
qed

lemma format_08X_format:
  assumes "0 \<le> i" "i < 2 ^ 32"
  shows "length (format_08X i) = 8 \<and> upper_hex (format_08X i)"
proof -
  let ?ds = "digits 16 (nat i)"
  from assms have "nat i < 16 ^ 8" by simp
  then have "length ?ds \<le> 8" by (intro digits_length) simp_all
  with assms have len: "length (format_08X i) = 8"
    by (simp add: format_08X_def zero_pad_length render_def)
  have "c \<in> set hex_upper" if "c \<in> set (format_08X i)" for c
  proof -
    from that assms have "c = CHR ''0'' \<or> c \<in> set (render hex_upper ?ds)"
      by (auto simp: format_08X_def zero_pad_def)
    moreover have "c \<in> set hex_upper"
      if "c \<in> set (render hex_upper ?ds)"
    proof -
      from that obtain d where "d \<in> set ?ds" "c = hex_upper ! d"
        by (auto simp: render_def)
      with digits_less [of 16 d "nat i"] upper_alphabet [of d] show ?thesis by simp
    qed
    ultimately show ?thesis using zero_upper by auto
  qed
  then have "upper_hex (format_08X i)"
    unfolding upper_hex_def list_all_iff by auto
  with len show ?thesis by simp
qed

lemma mask32: "0 \<le> (i::int) AND 0xFFFFFFFF \<and> i AND 0xFFFFFFFF < 2 ^ 32"
proof -
  have "i AND 0xFFFFFFFF \<le> 0xFFFFFFFF" by (rule AND_upper2) simp
  moreover have "0 \<le> i AND 0xFFFFFFFF" by simp
  ultimately show ?thesis by simp
qed

text \<open>The hashes of the example file, evaluated.\<close>

lemma example_hash_loop: "hash_loop example_lib [1, 2, 3] ([], [], 0) = ([1, 2, 3], [1, 2, 3], -3)"
  by (simp add: hash_loop.simps chunk_size_def example_lib_def Let_def)

lemma digits_16_3: "digits 16 3 = [3]"
  by (simp add: digits.simps)

lemma digits_16_crc: "digits 16 4294967293 = [15, 15, 15, 15, 15, 15, 15, 13]"
  by (simp add: digits.simps)

lemma example_md5_hex:
  "str_upper (hexdigest (md5 example_lib [1, 2, 3])) = ''00000000000000000000000000000003''"
proof -
  have "str_upper (zero_pad 32 (render hex_lower [3])) = ''00000000000000000000000000000003''"
    by code_simp
  then show ?thesis
    by (simp add: hexdigest_def example_lib_def digits_16_3)
qed

lemma example_sha1_hex:
  "str_upper (hexdigest (sha1 example_lib [1, 2, 3]))
     = ''0000000000000000000000000000000000000003''"
proof -
  have "str_upper (zero_pad 40 (render hex_lower [3]))
          = ''0000000000000000000000000000000000000003''"
    by code_simp
  then show ?thesis
    by (simp add: hexdigest_def example_lib_def digits_16_3)
qed

lemma example_crc_hex: "format_08X 4294967293 = ''FFFFFFFD''"
proof -
  have "zero_pad 8 (render hex_upper [15, 15, 15, 15, 15, 15, 15, 13]) = ''FFFFFFFD''"
    by code_simp
  then show ?thesis
    by (simp add: format_08X_def digits_16_crc)
qed

text \<open>
  Claim C8. For every readable file \<^verbatim>\<open>calculate_file_hashes\<close> returns three strings of
  lengths 32, 40 and 8, each made of the digits 0-9 and the letters A-F only, whatever
  the digest and checksum functions of the library compute.
\<close>

theorem fingerprint_format:
  assumes "fs w (to_path L file_path) = Regular content"
  shows "\<exists>a b c. fst (calculate_file_hashes L w file_path) = Inr (a, b, c)
           \<and> length a = 32 \<and> length b = 40 \<and> length c = 8
           \<and> upper_hex a \<and> upper_hex b \<and> upper_hex c"
proof -
  obtain m s crc where h: "hash_loop L content ([], [], 0) = (m, s, crc)"
    by (cases "hash_loop L content ([], [], 0)") auto
  have r: "fst (calculate_file_hashes L w file_path)
         = Inr (str_upper (hexdigest (md5 L m)), str_upper (hexdigest (sha1 L s)),
                format_08X (crc AND 0xFFFFFFFF))"
    by (simp add: calculate_file_hashes_def assms h Let_def)
  have a: "length (str_upper (hexdigest (md5 L m))) = 32
         \<and> upper_hex (str_upper (hexdigest (md5 L m)))"
    by (rule hexdigest_format) simp_all
  have b: "length (str_upper (hexdigest (sha1 L s))) = 40
         \<and> upper_hex (str_upper (hexdigest (sha1 L s)))"
    by (rule hexdigest_format) simp_all
  have c: "length (format_08X (crc AND 0xFFFFFFFF)) = 8
         \<and> upper_hex (format_08X (crc AND 0xFFFFFFFF))"
    using mask32 [of crc] by (intro format_08X_format) simp_all
  from r a b c show ?thesis by blast
qed

theorem fingerprint_format_witness:
  "fst (calculate_file_hashes example_lib (example_world ''good'') (Str ''./zelda.nes''))
     = Inr (''00000000000000000000000000000003'',
            ''0000000000000000000000000000000000000003'', ''FFFFFFFD'')
   \<and> upper_hex ''00000000000000000000000000000003''
   \<and> upper_hex ''0000000000000000000000000000000000000003''
   \<and> upper_hex ''FFFFFFFD''"
proof -
  have t: "path_str example_lib ''./zelda.nes'' = ''zelda.nes''"
    by (simp add: example_lib_def)
  have f: "fs (example_world ''good'') ''zelda.nes'' = Regular [1, 2, 3]"
    by (simp add: example_world_def)
  have r: "fs (example_world ''good'') (to_path example_lib (Str ''./zelda.nes''))
             = Regular [1, 2, 3]"
    by (simp add: t f)
  have e: "fst (calculate_file_hashes example_lib (example_world ''good'') (Str ''./zelda.nes''))
     = Inr (''00000000000000000000000000000003'',
            ''0000000000000000000000000000000000000003'', ''FFFFFFFD'')"
    by (simp add: calculate_file_hashes_def t f example_hash_loop example_md5_hex
          example_sha1_hex example_crc_hex Let_def)
  from fingerprint_format [OF r] e show ?thesis
    by auto
qed

end
